theory Spec2Isabelle
  imports Main "HOL-Library.Sublist"
begin

section \<open>The CrewAI research skill of AnythingLLM: \<open>runtime.handler\<close>\<close>

text \<open>
  The repository's one piece of program logic is
  \<^verbatim>\<open>src/crewai/anythingllm-skill/handler.js\<close>: an async function that announces a
  research request, POSTs it to the CrewAI service, and relays the answer or a
  description of the failure. This theory embeds that function and the parts of the
  JavaScript platform it calls (\<^verbatim>\<open>fetch\<close>, \<^verbatim>\<open>JSON.stringify\<close>, template literals,
  \<^verbatim>\<open>Array.prototype.join\<close>, property reads) and proves the properties the
  specification states about it.

  Text is a \<^typ>\<open>string\<close>: the UTF-8 bytes of the JavaScript string. The three
  pictographs of the progress messages are written as their bytes.
\<close>

subsection \<open>Values\<close>

text \<open>
  The values that reach the handler from outside are decoded JSON, and
  \<^verbatim>\<open>undefined\<close> for a property that is absent. A number is carried by its decimal
  rendering (what \<^verbatim>\<open>String(n)\<close> yields, for instance \<open>''12''\<close> or \<open>''4.5''\<close>),
  which is all the handler observes of it. An object lists its own properties in
  enumeration order, each key once.
\<close>

datatype js_value =
    JUndefined
  | JNull
  | JBool bool
  | JNumber string
  | JString string
  | JArray "js_value list"
  | JObject "(string \<times> js_value) list"

text \<open>A thrown \<^verbatim>\<open>Error\<close>: its \<^verbatim>\<open>name\<close> and its \<^verbatim>\<open>message\<close>.\<close>

datatype js_error = JsError (err_name: string) (message: string)

text \<open>
  The ways the engine itself raises a \<^verbatim>\<open>TypeError\<close> in the handler's success branch:
  reading a property of \<^verbatim>\<open>undefined\<close> or \<^verbatim>\<open>null\<close>, calling something that is not a
  function, and converting to a string an object that has no usable \<^verbatim>\<open>toString\<close>.
  The wording of the message is the engine's, so the host supplies it.
\<close>

datatype fault =
    ReadOfNullish js_value string
  | NotAFunction string
  | NotPrimitive

subsection \<open>Platform operations\<close>

text \<open>
  \<^verbatim>\<open>ToString\<close>, as a template literal applies it, and \<^verbatim>\<open>Array.prototype.join\<close>.
  A decoded object has no callable property of its own: with an own \<^verbatim>\<open>toString\<close> key
  it shadows \<^verbatim>\<open>Object.prototype.toString\<close> and the conversion throws; without one it
  is \<^verbatim>\<open>[object Object]\<close>. An array converts by joining its elements with a comma;
  \<^verbatim>\<open>join\<close> renders \<^verbatim>\<open>undefined\<close> and \<^verbatim>\<open>null\<close> elements as the empty string.
\<close>

fun to_string :: "js_value \<Rightarrow> fault + string"
and element_string :: "js_value \<Rightarrow> fault + string"
and join_values :: "string \<Rightarrow> js_value list \<Rightarrow> fault + string" where
  "to_string JUndefined = Inr ''undefined''"
| "to_string JNull = Inr ''null''"
| "to_string (JBool b) = Inr (if b then ''true'' else ''false'')"
| "to_string (JNumber s) = Inr s"
| "to_string (JString s) = Inr s"
| "to_string (JArray xs) = join_values '','' xs"
| "to_string (JObject ms) =
     (case map_of ms ''toString'' of
        Some _ \<Rightarrow> Inl NotPrimitive
      | None \<Rightarrow> Inr ''[object Object]'')"
| "element_string JUndefined = Inr []"
| "element_string JNull = Inr []"
| "element_string v = to_string v"
| "join_values sep [] = Inr []"
| "join_values sep [x] = element_string x"
| "join_values sep (x # y # ys) =
     (case element_string x of
        Inl f \<Rightarrow> Inl f
      | Inr s \<Rightarrow>
          (case join_values sep (y # ys) of
             Inl f \<Rightarrow> Inl f
           | Inr t \<Rightarrow> Inr (s @ sep @ t)))"

text \<open>
  A property read \<^verbatim>\<open>v.k\<close>, for the three names the handler reads
  (\<^verbatim>\<open>duration_seconds\<close>, \<^verbatim>\<open>agents_used\<close>, \<^verbatim>\<open>result\<close>), none of which a built-in
  prototype defines: on \<^verbatim>\<open>undefined\<close> and \<^verbatim>\<open>null\<close> the read throws, on an object it
  is the own property or \<^verbatim>\<open>undefined\<close>, on anything else it is \<^verbatim>\<open>undefined\<close>.
\<close>

definition own_property :: "(string \<times> js_value) list \<Rightarrow> string \<Rightarrow> js_value" where
  "own_property ms k = (case map_of ms k of None \<Rightarrow> JUndefined | Some v \<Rightarrow> v)"

fun get_prop :: "js_value \<Rightarrow> string \<Rightarrow> fault + js_value" where
  "get_prop JUndefined k = Inl (ReadOfNullish JUndefined k)"
| "get_prop JNull k = Inl (ReadOfNullish JNull k)"
| "get_prop (JObject ms) k = Inr (own_property ms k)"
| "get_prop v k = Inr JUndefined"

text \<open>
  The method call \<^verbatim>\<open>v.join(sep)\<close>: only an array has a callable \<^verbatim>\<open>join\<close>.
\<close>

fun call_join :: "js_value \<Rightarrow> string \<Rightarrow> fault + string" where
  "call_join JUndefined sep = Inl (ReadOfNullish JUndefined ''join'')"
| "call_join JNull sep = Inl (ReadOfNullish JNull ''join'')"
| "call_join (JArray xs) sep = join_values sep xs"
| "call_join v sep = Inl (NotAFunction ''join'')"

text \<open>The decimal rendering of a natural number, as \<^verbatim>\<open>${response.status}\<close> needs it.\<close>

fun string_of_nat :: "nat \<Rightarrow> string" where
  "string_of_nat n =
     (if n < 10 then [''0123456789'' ! n]
      else string_of_nat (n div 10) @ [''0123456789'' ! (n mod 10)])"

declare string_of_nat.simps [simp del]

text \<open>
  \<^verbatim>\<open>JSON.stringify\<close>. A string is quoted with the quotation mark, the backslash and
  the control characters below U+0020 escaped; every other byte is copied.
\<close>

definition hex_digit :: "nat \<Rightarrow> char" where
  "hex_digit n = ''0123456789abcdef'' ! n"

definition JSON_escape :: "char \<Rightarrow> string" where
  "JSON_escape c =
     (if c = CHR 0x22 then [CHR 0x5C, CHR 0x22]
      else if c = CHR 0x5C then [CHR 0x5C, CHR 0x5C]
      else if c = CHR 0x08 then [CHR 0x5C, CHR ''b'']
      else if c = CHR 0x0C then [CHR 0x5C, CHR ''f'']
      else if c = CHR 0x0A then [CHR 0x5C, CHR ''n'']
      else if c = CHR 0x0D then [CHR 0x5C, CHR ''r'']
      else if c = CHR 0x09 then [CHR 0x5C, CHR ''t'']
      else if (of_char c :: nat) < 32
        then [CHR 0x5C, CHR ''u'', CHR ''0'', CHR ''0'',
              hex_digit (of_char c div 16), hex_digit (of_char c mod 16)]
      else [c])"

definition JSON_quote :: "string \<Rightarrow> string" where
  "JSON_quote s = [CHR 0x22] @ concat (map JSON_escape s) @ [CHR 0x22]"

fun join_strings :: "string \<Rightarrow> string list \<Rightarrow> string" where
  "join_strings sep [] = []"
| "join_strings sep [x] = x"
| "join_strings sep (x # y # ys) = x @ sep @ join_strings sep (y # ys)"

text \<open>
  \<open>None\<close> is \<^verbatim>\<open>undefined\<close>: the result for \<^verbatim>\<open>undefined\<close> itself. Inside an array
  \<^verbatim>\<open>undefined\<close> is written \<^verbatim>\<open>null\<close>; a property whose value is \<^verbatim>\<open>undefined\<close> is left
  out. A number that is not finite is written \<^verbatim>\<open>null\<close>.
\<close>

fun JSON_stringify :: "js_value \<Rightarrow> string option"
and stringify_elements :: "js_value list \<Rightarrow> string list"
and stringify_members :: "(string \<times> js_value) list \<Rightarrow> string list" where
  "JSON_stringify JUndefined = None"
| "JSON_stringify JNull = Some ''null''"
| "JSON_stringify (JBool b) = Some (if b then ''true'' else ''false'')"
| "JSON_stringify (JNumber s) =
     Some (if s = ''NaN'' \<or> s = ''Infinity'' \<or> s = ''-Infinity'' then ''null'' else s)"
| "JSON_stringify (JString s) = Some (JSON_quote s)"
| "JSON_stringify (JArray xs) = Some (''['' @ join_strings '','' (stringify_elements xs) @ '']'')"
| "JSON_stringify (JObject ms) = Some (''{'' @ join_strings '','' (stringify_members ms) @ ''}'')"
| "stringify_elements [] = []"
| "stringify_elements (x # xs) =
     (case JSON_stringify x of None \<Rightarrow> ''null'' | Some t \<Rightarrow> t) # stringify_elements xs"
| "stringify_members [] = []"
| "stringify_members ((k, v) # ms) =
     (case JSON_stringify v of
        None \<Rightarrow> stringify_members ms
      | Some t \<Rightarrow> (JSON_quote k @ '':'' @ t) # stringify_members ms)"

subsection \<open>The host: configuration, progress callback, network\<close>

text \<open>
  An outbound request as the handler hands it to \<^verbatim>\<open>fetch\<close>; \<open>timeout_ms\<close> is the
  argument of \<^verbatim>\<open>AbortSignal.timeout\<close>.
\<close>

record request =
  url :: string
  http_method :: string
  headers :: "(string \<times> string) list"
  body :: "string option"
  timeout_ms :: nat

text \<open>
  A response: its status, and what \<^verbatim>\<open>response.text()\<close> and \<^verbatim>\<open>response.json()\<close>
  settle to. \<open>Inl\<close> is a rejection: the body could not be read, or, for
  \<open>body_json\<close>, it is not valid JSON (a \<^verbatim>\<open>SyntaxError\<close>).
\<close>

record response =
  status :: nat
  body_text :: "js_error + string"
  body_json :: "js_error + js_value"

datatype fetch_outcome = Rejects js_error | Resolves response

text \<open>
  What the handler finds in \<^verbatim>\<open>this\<close>. The configured values are strings, as the
  skill's settings are; \<open>runtimeArgs = None\<close> is \<^verbatim>\<open>this.runtimeArgs\<close> being
  \<^verbatim>\<open>undefined\<close>. \<open>introspect\<close> answers \<open>Some e\<close> when the callback throws \<open>e\<close> on
  that message. \<open>fetch\<close> answers a request with a rejection (the wait bound expired,
  no connection) or a response.
\<close>

record host =
  runtimeArgs :: "(string \<rightharpoonup> string) option"
  introspect :: "string \<Rightarrow> js_error option"
  fetch :: "request \<Rightarrow> fetch_outcome"
  type_error_message :: "fault \<Rightarrow> string"

text \<open>What an invocation does to the outside, in order.\<close>

datatype event = Introspect string | Fetch request

text \<open>A run: the events it caused, and then either the error thrown or the value.\<close>

type_synonym 'a run = "event list \<times> (js_error + 'a)"

definition returns :: "'a \<Rightarrow> 'a run" where
  "returns v = ([], Inr v)"

definition and_then :: "'a run \<Rightarrow> ('a \<Rightarrow> 'b run) \<Rightarrow> 'b run" where
  "and_then m f =
     (case m of
        (tr, Inl e) \<Rightarrow> (tr, Inl e)
      | (tr, Inr a) \<Rightarrow> (case f a of (tr', r) \<Rightarrow> (tr @ tr', r)))"

definition try_catch :: "'a run \<Rightarrow> (js_error \<Rightarrow> 'a run) \<Rightarrow> 'a run" where
  "try_catch m c =
     (case m of
        (tr, Inr a) \<Rightarrow> (tr, Inr a)
      | (tr, Inl e) \<Rightarrow> (case c e of (tr', r) \<Rightarrow> (tr @ tr', r)))"

definition call_introspect :: "host \<Rightarrow> string \<Rightarrow> unit run" where
  "call_introspect h msg =
     ([Introspect msg], case introspect h msg of None \<Rightarrow> Inr () | Some e \<Rightarrow> Inl e)"

definition call_fetch :: "host \<Rightarrow> request \<Rightarrow> response run" where
  "call_fetch h req =
     ([Fetch req], case fetch h req of Rejects e \<Rightarrow> Inl e | Resolves r \<Rightarrow> Inr r)"

definition await :: "js_error + 'a \<Rightarrow> 'a run" where
  "await p = ([], p)"

definition engine :: "host \<Rightarrow> fault + 'a \<Rightarrow> 'a run" where
  "engine h x =
     (case x of
        Inl f \<Rightarrow> ([], Inl (JsError ''TypeError'' (type_error_message h f)))
      | Inr a \<Rightarrow> ([], Inr a))"

text \<open>\<^verbatim>\<open>this.runtimeArgs?.k\<close>: \<open>None\<close> is \<^verbatim>\<open>undefined\<close>.\<close>

definition runtime_arg :: "host \<Rightarrow> string \<Rightarrow> string option" where
  "runtime_arg h k = (case runtimeArgs h of None \<Rightarrow> None | Some args \<Rightarrow> args k)"

text \<open>\<^verbatim>\<open>v || d\<close> on a string or \<^verbatim>\<open>undefined\<close>: the empty string is falsy.\<close>

definition or_default :: "string option \<Rightarrow> string \<Rightarrow> string" where
  "or_default v d = (case v of None \<Rightarrow> d | Some s \<Rightarrow> if s = [] then d else s)"

text \<open>\<^verbatim>\<open>response.ok\<close>.\<close>

definition ok :: "response \<Rightarrow> bool" where
  "ok r = (200 \<le> status r \<and> status r \<le> 299)"

subsection \<open>The handler\<close>

text \<open>
  \<^verbatim>\<open>handler: async function ({ topic })\<close>. The topic is a string, as the skill declares
  its one parameter. The result of a run is what the returned promise settles to:
  \<open>Inr v\<close> when it is fulfilled with \<open>v\<close>, \<open>Inl e\<close> when it is rejected with \<open>e\<close>.
  The definitions follow the source line by line: the two configuration reads, the
  texts of the template literals, the request, the \<^verbatim>\<open>try\<close> block and the \<^verbatim>\<open>catch\<close>
  block.
\<close>

definition baseUrl :: "host \<Rightarrow> string" where
  "baseUrl h = or_default (runtime_arg h ''CREWAI_API_URL'') ''http://crewai-service:8000''"

definition depth :: "host \<Rightarrow> string" where
  "depth h = or_default (runtime_arg h ''RESEARCH_DEPTH'') ''medium''"

definition announcement :: "string \<Rightarrow> string \<Rightarrow> string" where
  "announcement topic d =
     [CHR 0xF0, CHR 0x9F, CHR 0x94, CHR 0xAC] @ '' Sending research request to CrewAI crew: ''
       @ [CHR 0x22] @ topic @ [CHR 0x22] @ '' (depth: '' @ d @ '')''"

definition research_request :: "string \<Rightarrow> string \<Rightarrow> string \<Rightarrow> request" where
  "research_request base topic d =
     \<lparr> url = base @ ''/research'',
       http_method = ''POST'',
       headers = [(''Content-Type'', ''application/json'')],
       body = JSON_stringify (JObject [(''topic'', JString topic), (''depth'', JString d)]),
       timeout_ms = 300000 \<rparr>"

definition remote_failure_notice :: "nat \<Rightarrow> string" where
  "remote_failure_notice st =
     [CHR 0xE2, CHR 0x9D, CHR 0x8C] @ '' CrewAI returned error: '' @ string_of_nat st"

definition remote_failure_text :: "nat \<Rightarrow> string \<Rightarrow> string" where
  "remote_failure_text st errBody =
     ''CrewAI research failed (HTTP '' @ string_of_nat st @ ''): '' @ errBody"

definition completion_notice :: "string \<Rightarrow> string \<Rightarrow> string" where
  "completion_notice duration agents =
     [CHR 0xE2, CHR 0x9C, CHR 0x85] @ '' Research complete! Took '' @ duration
       @ ''s using agents: '' @ agents"

definition unreachable_notice :: "string \<Rightarrow> string" where
  "unreachable_notice msg =
     [CHR 0xE2, CHR 0x9D, CHR 0x8C] @ '' Failed to reach CrewAI service: '' @ msg"

definition remediation_hint :: string where
  "remediation_hint =
     ''. Make sure the crewai-service container is running and on the same Docker network.''"

definition unreachable_text :: "string \<Rightarrow> string \<Rightarrow> string" where
  "unreachable_text base msg =
     ''Error contacting CrewAI service at '' @ base @ '': '' @ msg @ remediation_hint"

text \<open>The body of the \<^verbatim>\<open>try\<close> block.\<close>

definition attempt :: "host \<Rightarrow> string \<Rightarrow> js_value run" where
  "attempt h topic =
     and_then (call_introspect h (announcement topic (depth h))) (\<lambda>_.
     and_then (call_fetch h (research_request (baseUrl h) topic (depth h))) (\<lambda>response.
       if \<not> ok response then
         and_then (await (body_text response)) (\<lambda>errBody.
         and_then (call_introspect h (remote_failure_notice (status response))) (\<lambda>_.
         returns (JString (remote_failure_text (status response) errBody))))
       else
         and_then (await (body_json response)) (\<lambda>data.
         and_then (engine h (get_prop data ''duration_seconds'')) (\<lambda>duration_seconds.
         and_then (engine h (to_string duration_seconds)) (\<lambda>duration.
         and_then (engine h (get_prop data ''agents_used'')) (\<lambda>agents_used.
         and_then (engine h (call_join agents_used '', '')) (\<lambda>agents.
         and_then (call_introspect h (completion_notice duration agents)) (\<lambda>_.
         and_then (engine h (get_prop data ''result'')) returns))))))))"

text \<open>The \<^verbatim>\<open>catch\<close> block.\<close>

definition recover :: "host \<Rightarrow> js_error \<Rightarrow> js_value run" where
  "recover h error =
     and_then (call_introspect h (unreachable_notice (message error))) (\<lambda>_.
     returns (JString (unreachable_text (baseUrl h) (message error))))"

definition handler :: "host \<Rightarrow> string \<Rightarrow> js_value run" where
  "handler h topic = try_catch (attempt h topic) (recover h)"

text \<open>The requests among the events of a run, in order.\<close>

fun requests :: "event list \<Rightarrow> request list" where
  "requests [] = []"
| "requests (Fetch req # es) = req # requests es"
| "requests (Introspect msg # es) = requests es"

text \<open>The progress callback honours its contract: it throws on no message.\<close>

definition never_throws :: "host \<Rightarrow> bool" where
  "never_throws h = (\<forall>msg. introspect h msg = None)"

subsection \<open>Concrete hosts and responses\<close>

text \<open>
  The wording V8 gives the three faults, for the concrete runs below; the general
  results hold for any wording.
\<close>

fun v8_message :: "fault \<Rightarrow> string" where
  "v8_message (ReadOfNullish v k) =
     ''Cannot read properties of '' @ (if v = JNull then ''null'' else ''undefined'')
       @ '' (reading '' @ [CHR 0x27] @ k @ [CHR 0x27] @ '')''"
| "v8_message (NotAFunction k) = ''data.agents_used.'' @ k @ '' is not a function''"
| "v8_message NotPrimitive = ''Cannot convert object to primitive value''"

text \<open>
  A host with a silent progress callback whose network answers every request with the
  same outcome.
\<close>

definition example_host :: "(string \<rightharpoonup> string) option \<Rightarrow> fetch_outcome \<Rightarrow> host" where
  "example_host args outcome =
     \<lparr> runtimeArgs = args,
       introspect = (\<lambda>msg. None),
       fetch = (\<lambda>req. outcome),
       type_error_message = v8_message \<rparr>"

definition syntax_error :: js_error where
  "syntax_error = JsError ''SyntaxError'' ''Unexpected token < in JSON at position 0''"

definition timeout_error :: js_error where
  "timeout_error = JsError ''TimeoutError'' ''The operation was aborted due to timeout''"

definition success_data :: js_value where
  "success_data =
     JObject [(''result'', JString ''ok''),
              (''duration_seconds'', JNumber ''12''),
              (''agents_used'', JArray [JString ''a'', JString ''b''])]"

definition success_response :: response where
  "success_response =
     \<lparr> status = 200,
       body_text = Inr (''{'' @ JSON_quote ''result'' @ '':'' @ JSON_quote ''ok'' @ '',''
                        @ JSON_quote ''duration_seconds'' @ '':12,''
                        @ JSON_quote ''agents_used'' @ '':['' @ JSON_quote ''a'' @ '',''
                        @ JSON_quote ''b'' @ '']}''),
       body_json = Inr success_data \<rparr>"

definition boom_response :: response where
  "boom_response =
     \<lparr> status = 500,
       body_text = Inr ''boom'',
       body_json = Inl (JsError ''SyntaxError'' ''Unexpected token b in JSON at position 0'') \<rparr>"

definition html_response :: response where
  "html_response =
     \<lparr> status = 200,
       body_text = Inr ''<html>Bad Gateway</html>'',
       body_json = Inl syntax_error \<rparr>"

definition no_agents_data :: js_value where
  "no_agents_data = JObject [(''result'', JString ''ok''), (''duration_seconds'', JNumber ''12'')]"

definition no_agents_response :: response where
  "no_agents_response =
     \<lparr> status = 200,
       body_text = Inr (''{'' @ JSON_quote ''result'' @ '':'' @ JSON_quote ''ok'' @ '',''
                        @ JSON_quote ''duration_seconds'' @ '':12}''),
       body_json = Inr no_agents_data \<rparr>"

definition empty_agents_data :: js_value where
  "empty_agents_data =
     JObject [(''result'', JString ''ok''),
              (''duration_seconds'', JNumber ''12''),
              (''agents_used'', JArray [])]"

definition empty_agents_response :: response where
  "empty_agents_response =
     \<lparr> status = 200,
       body_text = Inr (''{'' @ JSON_quote ''result'' @ '':'' @ JSON_quote ''ok'' @ '',''
                        @ JSON_quote ''duration_seconds'' @ '':12,''
                        @ JSON_quote ''agents_used'' @ '':[]}''),
       body_json = Inr empty_agents_data \<rparr>"

definition blank_settings :: "string \<rightharpoonup> string" where
  "blank_settings = [''CREWAI_API_URL'' \<mapsto> [], ''RESEARCH_DEPTH'' \<mapsto> []]"

definition lab_settings :: "string \<rightharpoonup> string" where
  "lab_settings = [''CREWAI_API_URL'' \<mapsto> ''http://lab:9000'', ''RESEARCH_DEPTH'' \<mapsto> ''deep'']"

section \<open>Properties\<close>

subsection \<open>Sequencing\<close>

lemma and_then_Inr: "and_then (tr, Inr a) f = (tr @ fst (f a), snd (f a))"
  by (simp add: and_then_def split: prod.split)

lemma and_then_Inl: "and_then (tr, Inl e) f = (tr, Inl e)"
  by (simp add: and_then_def)

lemma try_catch_Inr: "try_catch (tr, Inr a) c = (tr, Inr a)"
  by (simp add: try_catch_def)

lemma try_catch_Inl: "try_catch (tr, Inl e) c = (tr @ fst (c e), snd (c e))"
  by (simp add: try_catch_def split: prod.split)

lemma engine_Inr: "engine h (Inr a) = ([], Inr a)"
  by (simp add: engine_def)

lemma engine_Inl: "engine h (Inl f) = ([], Inl (JsError ''TypeError'' (type_error_message h f)))"
  by (simp add: engine_def)

lemma call_introspect_quiet:
  "never_throws h \<Longrightarrow> call_introspect h msg = ([Introspect msg], Inr ())"
  by (simp add: call_introspect_def never_throws_def)

lemma recover_quiet:
  "never_throws h \<Longrightarrow>
   recover h e = ([Introspect (unreachable_notice (message e))],
                  Inr (JString (unreachable_text (baseUrl h) (message e))))"
  by (simp add: recover_def call_introspect_quiet and_then_Inr returns_def)

subsection \<open>The \<^verbatim>\<open>try\<close> block, path by path\<close>

lemma attempt_rejects:
  assumes "never_throws h"
    and "fetch h (research_request (baseUrl h) topic (depth h)) = Rejects e"
  shows "attempt h topic =
    ([Introspect (announcement topic (depth h)),
      Fetch (research_request (baseUrl h) topic (depth h))], Inl e)"
  using assms
  by (simp add: attempt_def call_introspect_quiet call_fetch_def and_then_Inr and_then_Inl)

lemma attempt_resolves:
  assumes "never_throws h"
    and "fetch h (research_request (baseUrl h) topic (depth h)) = Resolves r"
  shows "attempt h topic =
    and_then ([Introspect (announcement topic (depth h)),
               Fetch (research_request (baseUrl h) topic (depth h))], Inr r) (\<lambda>response.
       if \<not> ok response then
         and_then (await (body_text response)) (\<lambda>errBody.
         and_then (call_introspect h (remote_failure_notice (status response))) (\<lambda>_.
         returns (JString (remote_failure_text (status response) errBody))))
       else
         and_then (await (body_json response)) (\<lambda>data.
         and_then (engine h (get_prop data ''duration_seconds'')) (\<lambda>duration_seconds.
         and_then (engine h (to_string duration_seconds)) (\<lambda>duration.
         and_then (engine h (get_prop data ''agents_used'')) (\<lambda>agents_used.
         and_then (engine h (call_join agents_used '', '')) (\<lambda>agents.
         and_then (call_introspect h (completion_notice duration agents)) (\<lambda>_.
         and_then (engine h (get_prop data ''result'')) returns)))))))"
  using assms
  by (simp add: attempt_def call_introspect_quiet call_fetch_def and_then_Inr)

lemma attempt_remote:
  assumes "never_throws h"
    and "fetch h (research_request (baseUrl h) topic (depth h)) = Resolves r"
    and "\<not> ok r" and "body_text r = Inr errBody"
  shows "attempt h topic =
    ([Introspect (announcement topic (depth h)),
      Fetch (research_request (baseUrl h) topic (depth h)),
      Introspect (remote_failure_notice (status r))],
     Inr (JString (remote_failure_text (status r) errBody)))"
  using assms(1,3,4)
  by (simp add: attempt_resolves[OF assms(1,2)] and_then_Inr await_def call_introspect_quiet
      returns_def)

lemma attempt_unreadable:
  assumes "never_throws h"
    and "fetch h (research_request (baseUrl h) topic (depth h)) = Resolves r"
    and "\<not> ok r" and "body_text r = Inl e"
  shows "attempt h topic =
    ([Introspect (announcement topic (depth h)),
      Fetch (research_request (baseUrl h) topic (depth h))], Inl e)"
  using assms(1,3,4)
  by (simp add: attempt_resolves[OF assms(1,2)] and_then_Inr and_then_Inl await_def)

lemma attempt_malformed:
  assumes "never_throws h"
    and "fetch h (research_request (baseUrl h) topic (depth h)) = Resolves r"
    and "ok r" and "body_json r = Inl e"
  shows "attempt h topic =
    ([Introspect (announcement topic (depth h)),
      Fetch (research_request (baseUrl h) topic (depth h))], Inl e)"
  using assms(1,3,4)
  by (simp add: attempt_resolves[OF assms(1,2)] and_then_Inr and_then_Inl await_def)

lemma attempt_complete:
  assumes "never_throws h"
    and "fetch h (research_request (baseUrl h) topic (depth h)) = Resolves r"
    and "ok r" and "body_json r = Inr data"
    and "get_prop data ''duration_seconds'' = Inr ds" and "to_string ds = Inr d"
    and "get_prop data ''agents_used'' = Inr au" and "call_join au '', '' = Inr a"
    and "get_prop data ''result'' = Inr res"
  shows "attempt h topic =
    ([Introspect (announcement topic (depth h)),
      Fetch (research_request (baseUrl h) topic (depth h)),
      Introspect (completion_notice d a)], Inr res)"
  using assms(1,3-)
  by (simp add: attempt_resolves[OF assms(1,2)] and_then_Inr await_def engine_Inr
      call_introspect_quiet returns_def)

lemma attempt_fault:
  assumes "never_throws h"
    and "fetch h (research_request (baseUrl h) topic (depth h)) = Resolves r"
    and "ok r" and "body_json r = Inr data"
    and "get_prop data ''duration_seconds'' = Inl f
         \<or> (\<exists>ds. get_prop data ''duration_seconds'' = Inr ds \<and>
               (to_string ds = Inl f
                \<or> (\<exists>d au. to_string ds = Inr d \<and> get_prop data ''agents_used'' = Inr au
                      \<and> call_join au '', '' = Inl f)))"
  shows "attempt h topic =
    ([Introspect (announcement topic (depth h)),
      Fetch (research_request (baseUrl h) topic (depth h))],
     Inl (JsError ''TypeError'' (type_error_message h f)))"
  using assms(1,3-)
  by (auto simp add: attempt_resolves[OF assms(1,2)] and_then_Inr and_then_Inl await_def
      engine_Inr engine_Inl)

lemma handler_caught:
  assumes "never_throws h" and "attempt h topic = (tr, Inl e)"
  shows "handler h topic =
    (tr @ [Introspect (unreachable_notice (message e))],
     Inr (JString (unreachable_text (baseUrl h) (message e))))"
  using assms by (simp add: handler_def try_catch_Inl recover_quiet)

lemma handler_passed:
  assumes "attempt h topic = (tr, Inr v)"
  shows "handler h topic = (tr, Inr v)"
  using assms by (simp add: handler_def try_catch_Inr)

subsection \<open>Requests of a run\<close>

lemma requests_append: "requests (xs @ ys) = requests xs @ requests ys"
  by (induction xs rule: requests.induct) simp_all

lemma no_requests_and_then:
  assumes "requests (fst m) = []" and "\<And>a. requests (fst (f a)) = []"
  shows "requests (fst (and_then m f)) = []"
proof (cases m)
  case (Pair tr res)
  with assms show ?thesis
    by (cases res) (simp_all add: and_then_Inl and_then_Inr requests_append)
qed

lemma no_requests_engine: "requests (fst (engine h x)) = []"
  by (cases x) (simp_all add: engine_def)

lemma no_requests_call_introspect: "requests (fst (call_introspect h msg)) = []"
  by (simp add: call_introspect_def)

lemma no_requests_await: "requests (fst (await p)) = []"
  by (simp add: await_def)

lemma no_requests_returns: "requests (fst (returns v)) = []"
  by (simp add: returns_def)

lemma no_requests_recover: "requests (fst (recover h e)) = []"
  unfolding recover_def
  by (intro no_requests_and_then no_requests_call_introspect no_requests_returns)

lemma requests_attempt:
  assumes "never_throws h"
  shows "requests (fst (attempt h topic)) = [research_request (baseUrl h) topic (depth h)]"
proof (cases "fetch h (research_request (baseUrl h) topic (depth h))")
  case (Rejects e)
  with assms show ?thesis by (simp add: attempt_rejects)
next
  case (Resolves r)
  have "requests (fst (
       if \<not> ok r then
         and_then (await (body_text r)) (\<lambda>errBody.
         and_then (call_introspect h (remote_failure_notice (status r))) (\<lambda>_.
         returns (JString (remote_failure_text (status r) errBody))))
       else
         and_then (await (body_json r)) (\<lambda>data.
         and_then (engine h (get_prop data ''duration_seconds'')) (\<lambda>duration_seconds.
         and_then (engine h (to_string duration_seconds)) (\<lambda>duration.
         and_then (engine h (get_prop data ''agents_used'')) (\<lambda>agents_used.
         and_then (engine h (call_join agents_used '', '')) (\<lambda>agents.
         and_then (call_introspect h (completion_notice duration agents)) (\<lambda>_.
         and_then (engine h (get_prop data ''result'')) returns)))))))) = []"
    by (cases "ok r")
       (simp_all only: if_True if_False not_True_eq_False not_False_eq_True,
        (intro no_requests_and_then no_requests_call_introspect no_requests_returns
           no_requests_engine no_requests_await)+)
  then show ?thesis
    by (simp add: attempt_resolves[OF assms Resolves] and_then_Inr requests_append)
qed

lemma requests_handler:
  assumes "never_throws h"
  shows "requests (fst (handler h topic)) = [research_request (baseUrl h) topic (depth h)]"
proof (cases "attempt h topic")
  case (Pair tr res)
  with requests_attempt[OF assms, of topic] have tr: "requests tr = [research_request (baseUrl h) topic (depth h)]"
    by simp
  show ?thesis
  proof (cases res)
    case (Inl e)
    with Pair tr show ?thesis
      by (simp add: handler_def try_catch_Inl requests_append no_requests_recover)
  next
    case (Inr v)
    with Pair tr show ?thesis by (simp add: handler_def try_catch_Inr)
  qed
qed

subsection \<open>Texts\<close>

lemma string_of_nat_500: "string_of_nat 500 = ''500''"
  by code_simp

lemma sublist_between: "sublist xs (ps @ xs @ ss)"
  by (rule sublist_appendI)

lemma announcement_names_topic: "sublist topic (announcement topic d)"
  unfolding announcement_def sublist_def
  by (rule exI[of _ "[CHR 0xF0, CHR 0x9F, CHR 0x94, CHR 0xAC]
        @ '' Sending research request to CrewAI crew: '' @ [CHR 0x22]"],
      rule exI[of _ "[CHR 0x22] @ '' (depth: '' @ d @ '')''"]) simp

lemma announcement_names_depth: "sublist d (announcement topic d)"
  unfolding announcement_def sublist_def
  by (rule exI[of _ "[CHR 0xF0, CHR 0x9F, CHR 0x94, CHR 0xAC]
        @ '' Sending research request to CrewAI crew: '' @ [CHR 0x22] @ topic @ [CHR 0x22]
        @ '' (depth: ''"],
      rule exI[of _ "'')''"]) simp

lemma remote_failure_text_names_status: "sublist (string_of_nat st) (remote_failure_text st b)"
  unfolding remote_failure_text_def by (rule sublist_appendI)

lemma remote_failure_text_names_body: "sublist b (remote_failure_text st b)"
  unfolding remote_failure_text_def sublist_def
  by (rule exI[of _ "''CrewAI research failed (HTTP '' @ string_of_nat st @ ''): ''"],
      rule exI[of _ "[]"]) simp

lemma remote_failure_notice_names_status: "sublist (string_of_nat st) (remote_failure_notice st)"
  unfolding remote_failure_notice_def sublist_def
  by (rule exI[of _ "[CHR 0xE2, CHR 0x9D, CHR 0x8C] @ '' CrewAI returned error: ''"],
      rule exI[of _ "[]"]) simp

lemma unreachable_text_names_base: "sublist base (unreachable_text base msg)"
  unfolding unreachable_text_def by (rule sublist_appendI)

lemma unreachable_text_names_message: "sublist msg (unreachable_text base msg)"
  unfolding unreachable_text_def sublist_def
  by (rule exI[of _ "''Error contacting CrewAI service at '' @ base @ '': ''"],
      rule exI[of _ "remediation_hint"]) simp

lemma unreachable_text_gives_hint: "sublist remediation_hint (unreachable_text base msg)"
  unfolding unreachable_text_def sublist_def
  by (rule exI[of _ "''Error contacting CrewAI service at '' @ base @ '': '' @ msg"],
      rule exI[of _ "[]"]) simp

lemma completion_notice_names_duration: "sublist d (completion_notice d a)"
  unfolding completion_notice_def sublist_def
  by (rule exI[of _ "[CHR 0xE2, CHR 0x9C, CHR 0x85] @ '' Research complete! Took ''"],
      rule exI[of _ "''s using agents: '' @ a"]) simp

lemma completion_notice_names_agents: "sublist a (completion_notice d a)"
  unfolding completion_notice_def sublist_def
  by (rule exI[of _ "[CHR 0xE2, CHR 0x9C, CHR 0x85] @ '' Research complete! Took '' @ d
        @ ''s using agents: ''"],
      rule exI[of _ "[]"]) simp

lemma request_body:
  "body (research_request base topic d) =
     Some (''{'' @ JSON_quote ''topic'' @ '':'' @ JSON_quote topic @ '',''
             @ JSON_quote ''depth'' @ '':'' @ JSON_quote d @ ''}'')"
  by (simp add: research_request_def)

lemma JSON_escape_plain:
  "c \<noteq> CHR 0x22 \<Longrightarrow> c \<noteq> CHR 0x5C \<Longrightarrow> 32 \<le> (of_char c :: nat) \<Longrightarrow> JSON_escape c = [c]"
  by (auto simp add: JSON_escape_def)

lemma JSON_quote_plain:
  assumes "\<forall>c \<in> set s. c \<noteq> CHR 0x22 \<and> c \<noteq> CHR 0x5C \<and> 32 \<le> (of_char c :: nat)"
  shows "JSON_quote s = [CHR 0x22] @ s @ [CHR 0x22]"
proof -
  have "concat (map JSON_escape s) = s"
    using assms by (induction s) (simp_all add: JSON_escape_plain)
  then show ?thesis by (simp add: JSON_quote_def)
qed

lemma JSON_quote_medium: "JSON_quote ''medium'' = [CHR 0x22] @ ''medium'' @ [CHR 0x22]"
  by (rule JSON_quote_plain) simp

lemma JSON_quote_cats: "JSON_quote ''cats'' = [CHR 0x22] @ ''cats'' @ [CHR 0x22]"
  by (rule JSON_quote_plain) simp

subsection \<open>The concrete hosts\<close>

lemma example_host_quiet: "never_throws (example_host args outcome)"
  by (simp add: never_throws_def example_host_def)

lemma example_host_fetch: "fetch (example_host args outcome) req = outcome"
  by (simp add: example_host_def)

lemma example_host_wording: "type_error_message (example_host args outcome) = v8_message"
  by (simp add: example_host_def)

lemma example_host_defaults:
  "baseUrl (example_host None outcome) = ''http://crewai-service:8000''"
  "depth (example_host None outcome) = ''medium''"
  by (simp_all add: baseUrl_def depth_def runtime_arg_def or_default_def example_host_def)

lemma example_host_blank:
  "runtime_arg (example_host (Some blank_settings) outcome) ''CREWAI_API_URL'' = Some []"
  "runtime_arg (example_host (Some blank_settings) outcome) ''RESEARCH_DEPTH'' = Some []"
  by (simp_all add: runtime_arg_def example_host_def blank_settings_def)

lemma example_host_lab:
  "baseUrl (example_host (Some lab_settings) outcome) = ''http://lab:9000''"
  "depth (example_host (Some lab_settings) outcome) = ''deep''"
  by (simp_all add: baseUrl_def depth_def runtime_arg_def or_default_def example_host_def
      lab_settings_def)

lemma success_response_facts:
  "ok success_response" "status success_response = 200"
  "body_json success_response = Inr success_data"
  by (simp_all add: success_response_def ok_def)

lemma boom_response_facts:
  "\<not> ok boom_response" "status boom_response = 500" "body_text boom_response = Inr ''boom''"
  by (simp_all add: boom_response_def ok_def)

lemma html_response_facts:
  "ok html_response" "body_json html_response = Inl syntax_error"
  by (simp_all add: html_response_def ok_def)

lemma no_agents_response_facts:
  "ok no_agents_response" "body_json no_agents_response = Inr no_agents_data"
  by (simp_all add: no_agents_response_def ok_def)

lemma empty_agents_response_facts:
  "ok empty_agents_response" "body_json empty_agents_response = Inr empty_agents_data"
  by (simp_all add: empty_agents_response_def ok_def)

lemma success_data_reads:
  "get_prop success_data ''duration_seconds'' = Inr (JNumber ''12'')"
  "get_prop success_data ''agents_used'' = Inr (JArray [JString ''a'', JString ''b''])"
  "get_prop success_data ''result'' = Inr (JString ''ok'')"
  by (simp_all add: success_data_def own_property_def)

lemma no_agents_data_reads:
  "get_prop no_agents_data ''duration_seconds'' = Inr (JNumber ''12'')"
  "get_prop no_agents_data ''agents_used'' = Inr JUndefined"
  "get_prop no_agents_data ''result'' = Inr (JString ''ok'')"
  by (simp_all add: no_agents_data_def own_property_def)

lemma empty_agents_data_reads:
  "get_prop empty_agents_data ''duration_seconds'' = Inr (JNumber ''12'')"
  "get_prop empty_agents_data ''agents_used'' = Inr (JArray [])"
  "get_prop empty_agents_data ''result'' = Inr (JString ''ok'')"
  by (simp_all add: empty_agents_data_def own_property_def)

lemma get_prop_defined:
  "get_prop data k = Inr v \<Longrightarrow> \<exists>v'. get_prop data k' = Inr v'"
  by (cases data) simp_all

lemma handler_starts:
  "\<exists>rest. fst (handler h topic) = Introspect (announcement topic (depth h)) # rest"
proof -
  obtain tr res where a: "attempt h topic = (tr, res)" by (cases "attempt h topic")
  have "\<exists>rest. tr = Introspect (announcement topic (depth h)) # rest"
    using a unfolding attempt_def call_introspect_def
    by (cases "introspect h (announcement topic (depth h))")
       (auto simp add: and_then_Inl and_then_Inr)
  then obtain rest where tr: "tr = Introspect (announcement topic (depth h)) # rest" ..
  show ?thesis
    by (cases res) (simp_all add: handler_def a tr try_catch_Inl try_catch_Inr)
qed

subsection \<open>The claims\<close>

text \<open>
  C2. When the request is answered with status 200 and the body
  \<^verbatim>\<open>{"result":"ok","duration_seconds":12,"agents_used":["a","b"]}\<close>, the handler
  returns exactly the string \<^verbatim>\<open>ok\<close>, the \<^verbatim>\<open>result\<close> field of the decoded body, and
  the progress callback has received a notification whose text mentions \<^verbatim>\<open>12\<close> and
  \<^verbatim>\<open>a, b\<close>.
\<close>

theorem success_returns_result_and_reports:
  assumes "never_throws h"
    and "fetch h (research_request (baseUrl h) topic (depth h)) = Resolves r"
    and "status r = 200"
    and "body_json r = Inr (JObject [(''result'', JString ''ok''),
                                     (''duration_seconds'', JNumber ''12''),
                                     (''agents_used'', JArray [JString ''a'', JString ''b''])])"
  shows "snd (handler h topic) = Inr (JString ''ok'')
       \<and> Introspect (completion_notice ''12'' ''a, b'') \<in> set (fst (handler h topic))
       \<and> sublist ''12'' (completion_notice ''12'' ''a, b'')
       \<and> sublist ''a, b'' (completion_notice ''12'' ''a, b'')"
proof -
  let ?data = "JObject [(''result'', JString ''ok''), (''duration_seconds'', JNumber ''12''),
                        (''agents_used'', JArray [JString ''a'', JString ''b''])]"
  have "ok r" using assms(3) by (simp add: ok_def)
  moreover have "get_prop ?data ''duration_seconds'' = Inr (JNumber ''12'')"
    by (simp add: own_property_def)
  moreover have "to_string (JNumber ''12'') = Inr ''12''" by simp
  moreover have "get_prop ?data ''agents_used'' = Inr (JArray [JString ''a'', JString ''b''])"
    by (simp add: own_property_def)
  moreover have "call_join (JArray [JString ''a'', JString ''b'']) '', '' = Inr ''a, b''"
    by simp
  moreover have "get_prop ?data ''result'' = Inr (JString ''ok'')"
    by (simp add: own_property_def)
  ultimately have "attempt h topic =
      ([Introspect (announcement topic (depth h)),
        Fetch (research_request (baseUrl h) topic (depth h)),
        Introspect (completion_notice ''12'' ''a, b'')], Inr (JString ''ok''))"
    using assms(1,2,4) by (rule_tac attempt_complete)
  then have "handler h topic =
      ([Introspect (announcement topic (depth h)),
        Fetch (research_request (baseUrl h) topic (depth h)),
        Introspect (completion_notice ''12'' ''a, b'')], Inr (JString ''ok''))"
    by (rule handler_passed)
  then show ?thesis
    by (simp add: completion_notice_names_duration completion_notice_names_agents)
qed

theorem success_returns_result_and_reports_witness:
  "never_throws (example_host None (Resolves success_response))
   \<and> fetch (example_host None (Resolves success_response))
        (research_request ''http://crewai-service:8000'' ''cats'' ''medium'')
       = Resolves success_response
   \<and> status success_response = 200
   \<and> body_json success_response
       = Inr (JObject [(''result'', JString ''ok''),
                       (''duration_seconds'', JNumber ''12''),
                       (''agents_used'', JArray [JString ''a'', JString ''b''])])
   \<and> snd (handler (example_host None (Resolves success_response)) ''cats'') = Inr (JString ''ok'')
   \<and> Introspect (completion_notice ''12'' ''a, b'')
       \<in> set (fst (handler (example_host None (Resolves success_response)) ''cats''))"
proof -
  let ?h = "example_host None (Resolves success_response)"
  have q: "never_throws ?h" by (rule example_host_quiet)
  have f: "fetch ?h (research_request (baseUrl ?h) ''cats'' (depth ?h)) = Resolves success_response"
    by (rule example_host_fetch)
  have j: "body_json success_response
       = Inr (JObject [(''result'', JString ''ok''),
                       (''duration_seconds'', JNumber ''12''),
                       (''agents_used'', JArray [JString ''a'', JString ''b''])])"
    by (simp add: success_response_facts success_data_def)
  show ?thesis
    using success_returns_result_and_reports[OF q f success_response_facts(2) j]
    by (simp add: example_host_quiet example_host_fetch success_response_facts(2) j)
qed

text \<open>
  C3. When the request is answered with status 500 and the body \<^verbatim>\<open>boom\<close>, the handler
  reads the body as text, notifies the progress callback of the failure status, and
  only then returns; what it returns is the remote-error description built from the
  status 500 and the body \<^verbatim>\<open>boom\<close>, a string that contains both \<^verbatim>\<open>500\<close> and
  \<^verbatim>\<open>boom\<close>.
\<close>

theorem remote_error_is_reported:
  assumes "never_throws h"
    and "fetch h (research_request (baseUrl h) topic (depth h)) = Resolves r"
    and "status r = 500"
    and "body_text r = Inr ''boom''"
  shows "handler h topic =
           ([Introspect (announcement topic (depth h)),
             Fetch (research_request (baseUrl h) topic (depth h)),
             Introspect (remote_failure_notice 500)],
            Inr (JString (remote_failure_text 500 ''boom'')))
       \<and> remote_failure_text 500 ''boom'' = ''CrewAI research failed (HTTP 500): boom''
       \<and> sublist ''500'' (remote_failure_text 500 ''boom'')
       \<and> sublist ''boom'' (remote_failure_text 500 ''boom'')
       \<and> sublist ''500'' (remote_failure_notice 500)"
proof -
  have "\<not> ok r" using assms(3) by (simp add: ok_def)
  with assms have "attempt h topic =
           ([Introspect (announcement topic (depth h)),
             Fetch (research_request (baseUrl h) topic (depth h)),
             Introspect (remote_failure_notice 500)],
            Inr (JString (remote_failure_text 500 ''boom'')))"
    using attempt_remote[of h topic r "''boom''"] by simp
  then have "handler h topic =
           ([Introspect (announcement topic (depth h)),
             Fetch (research_request (baseUrl h) topic (depth h)),
             Introspect (remote_failure_notice 500)],
            Inr (JString (remote_failure_text 500 ''boom'')))"
    by (rule handler_passed)
  moreover have "remote_failure_text 500 ''boom'' = ''CrewAI research failed (HTTP 500): boom''"
    by (simp add: remote_failure_text_def string_of_nat_500)
  moreover have "sublist ''500'' (remote_failure_text 500 ''boom'')"
    using remote_failure_text_names_status[of 500 "''boom''"] by (simp only: string_of_nat_500)
  moreover have "sublist ''boom'' (remote_failure_text 500 ''boom'')"
    by (rule remote_failure_text_names_body)
  moreover have "sublist ''500'' (remote_failure_notice 500)"
    using remote_failure_notice_names_status[of 500] by (simp only: string_of_nat_500)
  ultimately show ?thesis by blast
qed

theorem remote_error_is_reported_witness:
  "never_throws (example_host None (Resolves boom_response))
   \<and> fetch (example_host None (Resolves boom_response))
        (research_request ''http://crewai-service:8000'' ''cats'' ''medium'')
       = Resolves boom_response
   \<and> status boom_response = 500
   \<and> body_text boom_response = Inr ''boom''
   \<and> snd (handler (example_host None (Resolves boom_response)) ''cats'')
       = Inr (JString ''CrewAI research failed (HTTP 500): boom'')"
proof -
  let ?h = "example_host None (Resolves boom_response)"
  have q: "never_throws ?h" by (rule example_host_quiet)
  have f: "fetch ?h (research_request (baseUrl ?h) ''cats'' (depth ?h)) = Resolves boom_response"
    by (rule example_host_fetch)
  show ?thesis
    using remote_error_is_reported[OF q f boom_response_facts(2,3)]
    by (simp add: example_host_quiet example_host_fetch boom_response_facts(2,3))
qed

text \<open>
  C4. When \<^verbatim>\<open>fetch\<close> rejects, as it does when the 300000 ms bound of the request's
  abort signal expires or no connection can be made, the handler returns the
  transport-error description: a string that contains the configured base URL and
  the remediation hint. The request was issued with the bound of 300000 ms.
\<close>

theorem transport_failure_names_base_url:
  assumes "never_throws h"
    and "fetch h (research_request (baseUrl h) topic (depth h)) = Rejects e"
  shows "handler h topic =
           ([Introspect (announcement topic (depth h)),
             Fetch (research_request (baseUrl h) topic (depth h)),
             Introspect (unreachable_notice (message e))],
            Inr (JString (unreachable_text (baseUrl h) (message e))))
       \<and> sublist (baseUrl h) (unreachable_text (baseUrl h) (message e))
       \<and> sublist remediation_hint (unreachable_text (baseUrl h) (message e))
       \<and> timeout_ms (research_request (baseUrl h) topic (depth h)) = 300000"
  using handler_caught[OF assms(1) attempt_rejects[OF assms]]
  by (simp add: unreachable_text_names_base unreachable_text_gives_hint research_request_def)

theorem transport_failure_names_base_url_witness:
  "never_throws (example_host (Some lab_settings) (Rejects timeout_error))
   \<and> fetch (example_host (Some lab_settings) (Rejects timeout_error))
        (research_request ''http://lab:9000'' ''cats'' ''deep'')
       = Rejects timeout_error
   \<and> snd (handler (example_host (Some lab_settings) (Rejects timeout_error)) ''cats'')
       = Inr (JString (''Error contacting CrewAI service at http://lab:9000: ''
            @ ''The operation was aborted due to timeout''
            @ ''. Make sure the crewai-service container is running and on the same Docker network.''))"
proof -
  let ?h = "example_host (Some lab_settings) (Rejects timeout_error)"
  have q: "never_throws ?h" by (rule example_host_quiet)
  have f: "fetch ?h (research_request (baseUrl ?h) ''cats'' (depth ?h)) = Rejects timeout_error"
    by (rule example_host_fetch)
  show ?thesis
    using transport_failure_names_base_url[OF q f]
    by (simp add: example_host_quiet example_host_fetch example_host_lab unreachable_text_def
        remediation_hint_def timeout_error_def)
qed

text \<open>
  C5. For every topic (the non-empty ones among them) and whatever depth is
  configured, an invocation issues exactly one outbound request: a POST to
  \<open>baseUrl/research\<close> with the JSON content type, whose body is the JSON text of the
  object with the two properties \<^verbatim>\<open>topic\<close> and \<^verbatim>\<open>depth\<close>. This holds whatever the
  network answers, so no outcome leads to a second request. The progress callback is
  taken to honour its contract of not throwing.
\<close>

theorem one_request_per_invocation:
  assumes "never_throws h"
  shows "requests (fst (handler h topic)) = [research_request (baseUrl h) topic (depth h)]
       \<and> url (research_request (baseUrl h) topic (depth h)) = baseUrl h @ ''/research''
       \<and> http_method (research_request (baseUrl h) topic (depth h)) = ''POST''
       \<and> headers (research_request (baseUrl h) topic (depth h))
           = [(''Content-Type'', ''application/json'')]
       \<and> body (research_request (baseUrl h) topic (depth h))
           = Some (''{'' @ JSON_quote ''topic'' @ '':'' @ JSON_quote topic @ '',''
                     @ JSON_quote ''depth'' @ '':'' @ JSON_quote (depth h) @ ''}'')"
proof -
  have "requests (fst (handler h topic)) = [research_request (baseUrl h) topic (depth h)]"
    using assms by (rule requests_handler)
  moreover have "url (research_request (baseUrl h) topic (depth h)) = baseUrl h @ ''/research''"
    by (simp add: research_request_def)
  moreover have "http_method (research_request (baseUrl h) topic (depth h)) = ''POST''"
    by (simp add: research_request_def)
  moreover have "headers (research_request (baseUrl h) topic (depth h))
           = [(''Content-Type'', ''application/json'')]"
    by (simp add: research_request_def)
  ultimately show ?thesis
    using request_body[of "baseUrl h" topic "depth h"] by blast
qed

lemma JSON_quote_topic: "JSON_quote ''topic'' = [CHR 0x22] @ ''topic'' @ [CHR 0x22]"
  by (rule JSON_quote_plain) simp

lemma JSON_quote_depth: "JSON_quote ''depth'' = [CHR 0x22] @ ''depth'' @ [CHR 0x22]"
  by (rule JSON_quote_plain) simp

lemma JSON_quote_deep: "JSON_quote ''deep'' = [CHR 0x22] @ ''deep'' @ [CHR 0x22]"
  by (rule JSON_quote_plain) simp

theorem one_request_per_invocation_witness:
  "never_throws (example_host (Some lab_settings) (Resolves boom_response))
   \<and> requests (fst (handler (example_host (Some lab_settings) (Resolves boom_response)) ''cats''))
       = [\<lparr> url = ''http://lab:9000/research'',
            http_method = ''POST'',
            headers = [(''Content-Type'', ''application/json'')],
            body = Some (''{'' @ [CHR 0x22] @ ''topic'' @ [CHR 0x22] @ '':''
                           @ [CHR 0x22] @ ''cats'' @ [CHR 0x22] @ '',''
                           @ [CHR 0x22] @ ''depth'' @ [CHR 0x22] @ '':''
                           @ [CHR 0x22] @ ''deep'' @ [CHR 0x22] @ ''}''),
            timeout_ms = 300000 \<rparr>]"
proof -
  let ?h = "example_host (Some lab_settings) (Resolves boom_response)"
  have q: "never_throws ?h" by (rule example_host_quiet)
  have r: "research_request ''http://lab:9000'' ''cats'' ''deep''
       = \<lparr> url = ''http://lab:9000/research'',
            http_method = ''POST'',
            headers = [(''Content-Type'', ''application/json'')],
            body = Some (''{'' @ [CHR 0x22] @ ''topic'' @ [CHR 0x22] @ '':''
                           @ [CHR 0x22] @ ''cats'' @ [CHR 0x22] @ '',''
                           @ [CHR 0x22] @ ''depth'' @ [CHR 0x22] @ '':''
                           @ [CHR 0x22] @ ''deep'' @ [CHR 0x22] @ ''}''),
            timeout_ms = 300000 \<rparr>"
    by (simp add: research_request_def JSON_quote_topic JSON_quote_depth JSON_quote_deep
        JSON_quote_cats)
  have "requests (fst (handler ?h ''cats'')) = [research_request ''http://lab:9000'' ''cats'' ''deep'']"
    using one_request_per_invocation[OF q, of "''cats''"] by (simp only: example_host_lab)
  then show ?thesis using q r by simp
qed

text \<open>
  C6. When the configuration supplies no \<^verbatim>\<open>RESEARCH_DEPTH\<close> (no \<^verbatim>\<open>runtimeArgs\<close> at
  all, or none with that key), the \<^verbatim>\<open>depth\<close> property of the body of the outbound
  request is \<^verbatim>\<open>"medium"\<close>.
\<close>

theorem omitted_depth_is_medium:
  assumes "never_throws h"
    and "runtime_arg h ''RESEARCH_DEPTH'' = None"
  shows "\<exists>req. requests (fst (handler h topic)) = [req]
             \<and> body req = Some (''{'' @ JSON_quote ''topic'' @ '':'' @ JSON_quote topic @ '',''
                                  @ JSON_quote ''depth'' @ '':'' @ JSON_quote ''medium'' @ ''}'')"
proof -
  have d: "depth h = ''medium''"
    using assms(2) by (simp add: depth_def or_default_def)
  have "requests (fst (handler h topic)) = [research_request (baseUrl h) topic ''medium'']"
    using requests_handler[OF assms(1), of topic] by (simp only: d)
  moreover have "body (research_request (baseUrl h) topic ''medium'')
      = Some (''{'' @ JSON_quote ''topic'' @ '':'' @ JSON_quote topic @ '',''
                @ JSON_quote ''depth'' @ '':'' @ JSON_quote ''medium'' @ ''}'')"
    by (rule request_body)
  ultimately show ?thesis by blast
qed

theorem omitted_depth_is_medium_witness:
  "never_throws (example_host None (Resolves success_response))
   \<and> runtime_arg (example_host None (Resolves success_response)) ''RESEARCH_DEPTH'' = None
   \<and> (\<exists>req. requests (fst (handler (example_host None (Resolves success_response)) ''cats'')) = [req]
          \<and> body req = Some (''{'' @ [CHR 0x22] @ ''topic'' @ [CHR 0x22] @ '':''
                           @ [CHR 0x22] @ ''cats'' @ [CHR 0x22] @ '',''
                           @ [CHR 0x22] @ ''depth'' @ [CHR 0x22] @ '':''
                           @ [CHR 0x22] @ ''medium'' @ [CHR 0x22] @ ''}''))"
proof -
  let ?h = "example_host None (Resolves success_response)"
  have q: "never_throws ?h" by (rule example_host_quiet)
  have a: "runtime_arg ?h ''RESEARCH_DEPTH'' = None"
    by (simp add: runtime_arg_def example_host_def)
  show ?thesis
    using omitted_depth_is_medium[OF q a, of "''cats''"] q a
    by (simp add: JSON_quote_topic JSON_quote_depth JSON_quote_medium JSON_quote_cats)
qed

text \<open>
  C8. In every invocation the first thing that happens is the progress notification
  that announces the request; its text contains the topic and the depth. Wherever a
  request occurs among the events of the run, that notification stands before it.
\<close>

theorem announcement_precedes_request:
  "(\<exists>rest. fst (handler h topic) = Introspect (announcement topic (depth h)) # rest)
   \<and> sublist topic (announcement topic (depth h))
   \<and> sublist (depth h) (announcement topic (depth h))
   \<and> (\<forall>before req after. fst (handler h topic) = before @ Fetch req # after
          \<longrightarrow> Introspect (announcement topic (depth h)) \<in> set before)"
proof -
  obtain rest where st: "fst (handler h topic) = Introspect (announcement topic (depth h)) # rest"
    using handler_starts by blast
  have "Introspect (announcement topic (depth h)) \<in> set before"
    if "fst (handler h topic) = before @ Fetch req # after" for before req after
  proof (cases before)
    case Nil
    with that st show ?thesis by simp
  next
    case (Cons e es)
    with that st show ?thesis by simp
  qed
  with st show ?thesis
    by (simp add: announcement_names_topic announcement_names_depth)
qed

theorem announcement_precedes_request_witness:
  "fst (handler (example_host (Some lab_settings) (Resolves boom_response)) ''cats'')
     = [Introspect (announcement ''cats'' ''deep'')]
       @ Fetch (research_request ''http://lab:9000'' ''cats'' ''deep'')
       # [Introspect (remote_failure_notice 500)]
   \<and> Introspect (announcement ''cats'' ''deep'') \<in> set [Introspect (announcement ''cats'' ''deep'')]
   \<and> sublist ''cats'' (announcement ''cats'' ''deep'')
   \<and> sublist ''deep'' (announcement ''cats'' ''deep'')"
proof -
  let ?h = "example_host (Some lab_settings) (Resolves boom_response)"
  have q: "never_throws ?h" by (rule example_host_quiet)
  have f: "fetch ?h (research_request (baseUrl ?h) ''cats'' (depth ?h)) = Resolves boom_response"
    by (rule example_host_fetch)
  have "attempt ?h ''cats'' =
      ([Introspect (announcement ''cats'' (depth ?h)),
        Fetch (research_request (baseUrl ?h) ''cats'' (depth ?h)),
        Introspect (remote_failure_notice (status boom_response))],
       Inr (JString (remote_failure_text (status boom_response) ''boom'')))"
    using q f boom_response_facts(1,3) by (rule attempt_remote)
  then have tr: "fst (handler ?h ''cats'')
     = [Introspect (announcement ''cats'' ''deep'')]
       @ Fetch (research_request ''http://lab:9000'' ''cats'' ''deep'')
       # [Introspect (remote_failure_notice 500)]"
    by (simp add: handler_passed example_host_lab boom_response_facts(2))
  from announcement_precedes_request[of ?h "''cats''"]
  have "sublist ''cats'' (announcement ''cats'' ''deep'')
      \<and> sublist ''deep'' (announcement ''cats'' ''deep'')
      \<and> (\<forall>before req after. fst (handler ?h ''cats'') = before @ Fetch req # after
          \<longrightarrow> Introspect (announcement ''cats'' ''deep'') \<in> set before)"
    unfolding example_host_lab by blast
  with tr show ?thesis by blast
qed

text \<open>
  C10. A configured value that is present but empty is treated like an absent one:
  with \<^verbatim>\<open>CREWAI_API_URL\<close> the empty string, the base URL is
  \<^verbatim>\<open>http://crewai-service:8000\<close> and the request goes to its \<^verbatim>\<open>/research\<close>; with
  \<^verbatim>\<open>RESEARCH_DEPTH\<close> the empty string, the depth sent is \<^verbatim>\<open>medium\<close>. Absent values
  give the same two defaults.
\<close>

theorem blank_settings_fall_back:
  assumes "never_throws h"
  shows "(runtime_arg h ''CREWAI_API_URL'' = Some []
            \<longrightarrow> baseUrl h = ''http://crewai-service:8000''
              \<and> map url (requests (fst (handler h topic)))
                  = [''http://crewai-service:8000/research''])
       \<and> (runtime_arg h ''RESEARCH_DEPTH'' = Some []
            \<longrightarrow> depth h = ''medium''
              \<and> map body (requests (fst (handler h topic)))
                  = [Some (''{'' @ JSON_quote ''topic'' @ '':'' @ JSON_quote topic @ '',''
                             @ JSON_quote ''depth'' @ '':'' @ JSON_quote ''medium'' @ ''}'')])
       \<and> (runtime_arg h ''CREWAI_API_URL'' = None \<longrightarrow> baseUrl h = ''http://crewai-service:8000'')
       \<and> (runtime_arg h ''RESEARCH_DEPTH'' = None \<longrightarrow> depth h = ''medium'')"
proof -
  note reqs = requests_handler[OF assms, of topic]
  have "baseUrl h = ''http://crewai-service:8000''
      \<and> map url (requests (fst (handler h topic))) = [''http://crewai-service:8000/research'']"
    if "runtime_arg h ''CREWAI_API_URL'' = Some []"
  proof -
    have b: "baseUrl h = ''http://crewai-service:8000''"
      using that by (simp add: baseUrl_def or_default_def)
    have "url (research_request (baseUrl h) topic (depth h)) = baseUrl h @ ''/research''"
      by (simp add: research_request_def)
    with b reqs show ?thesis by simp
  qed
  moreover have "depth h = ''medium''
      \<and> map body (requests (fst (handler h topic)))
          = [Some (''{'' @ JSON_quote ''topic'' @ '':'' @ JSON_quote topic @ '',''
                     @ JSON_quote ''depth'' @ '':'' @ JSON_quote ''medium'' @ ''}'')]"
    if "runtime_arg h ''RESEARCH_DEPTH'' = Some []"
  proof -
    have d: "depth h = ''medium''"
      using that by (simp add: depth_def or_default_def)
    have "map body (requests (fst (handler h topic)))
        = [body (research_request (baseUrl h) topic ''medium'')]"
      using reqs by (simp add: d)
    with d show ?thesis by (simp add: request_body)
  qed
  moreover have "baseUrl h = ''http://crewai-service:8000''"
    if "runtime_arg h ''CREWAI_API_URL'' = None"
    using that by (simp add: baseUrl_def or_default_def)
  moreover have "depth h = ''medium''" if "runtime_arg h ''RESEARCH_DEPTH'' = None"
    using that by (simp add: depth_def or_default_def)
  ultimately show ?thesis by blast
qed

theorem blank_settings_fall_back_witness:
  "never_throws (example_host (Some blank_settings) (Resolves success_response))
   \<and> runtime_arg (example_host (Some blank_settings) (Resolves success_response)) ''CREWAI_API_URL''
       = Some []
   \<and> runtime_arg (example_host (Some blank_settings) (Resolves success_response)) ''RESEARCH_DEPTH''
       = Some []
   \<and> map url (requests (fst (handler
         (example_host (Some blank_settings) (Resolves success_response)) ''cats'')))
       = [''http://crewai-service:8000/research'']
   \<and> map body (requests (fst (handler
         (example_host (Some blank_settings) (Resolves success_response)) ''cats'')))
       = [Some (''{'' @ [CHR 0x22] @ ''topic'' @ [CHR 0x22] @ '':''
                  @ [CHR 0x22] @ ''cats'' @ [CHR 0x22] @ '',''
                  @ [CHR 0x22] @ ''depth'' @ [CHR 0x22] @ '':''
                  @ [CHR 0x22] @ ''medium'' @ [CHR 0x22] @ ''}'')]
   \<and> runtime_arg (example_host None (Resolves success_response)) ''CREWAI_API_URL'' = None
   \<and> baseUrl (example_host None (Resolves success_response)) = ''http://crewai-service:8000''
   \<and> runtime_arg (example_host None (Resolves success_response)) ''RESEARCH_DEPTH'' = None
   \<and> depth (example_host None (Resolves success_response)) = ''medium''"
proof -
  let ?h = "example_host (Some blank_settings) (Resolves success_response)"
  let ?n = "example_host None (Resolves success_response)"
  have none: "runtime_arg ?n ''CREWAI_API_URL'' = None" "runtime_arg ?n ''RESEARCH_DEPTH'' = None"
    by (simp_all add: runtime_arg_def example_host_def)
  show ?thesis
    using blank_settings_fall_back[OF example_host_quiet, of "Some blank_settings"
        "Resolves success_response" "''cats''"]
      blank_settings_fall_back[OF example_host_quiet, of None "Resolves success_response" "''cats''"]
    by (simp add: example_host_quiet example_host_blank none JSON_quote_topic JSON_quote_depth
        JSON_quote_medium JSON_quote_cats)
qed

text \<open>
  The proviso on the callback is needed: one that throws on every message makes the
  first notification fail, no request is issued, the \<^verbatim>\<open>catch\<close> block's own
  notification fails too, and that error leaves the handler.
\<close>

lemma throwing_callback_escapes:
  assumes "\<forall>msg. introspect h msg = Some e"
  shows "snd (handler h topic) = Inl e \<and> requests (fst (handler h topic)) = []"
  using assms
  by (simp add: handler_def attempt_def recover_def call_introspect_def and_then_Inl
      try_catch_Inl)

lemma handler_returns_or_describes:
  assumes "never_throws h"
  shows "\<exists>v. snd (handler h topic) = Inr v"
proof (cases "attempt h topic")
  case (Pair tr res)
  show ?thesis
  proof (cases res)
    case (Inl e)
    with Pair assms show ?thesis by (simp add: handler_caught)
  next
    case (Inr v)
    with Pair show ?thesis by (simp add: handler_passed)
  qed
qed

lemma attempt_without_agents:
  assumes "never_throws h"
    and "fetch h (research_request (baseUrl h) topic (depth h)) = Resolves r"
    and "ok r" and "body_json r = Inr data"
    and "get_prop data ''agents_used'' = Inr JUndefined"
  shows "\<exists>f. attempt h topic =
    ([Introspect (announcement topic (depth h)),
      Fetch (research_request (baseUrl h) topic (depth h))],
     Inl (JsError ''TypeError'' (type_error_message h f)))"
proof -
  obtain ds where ds: "get_prop data ''duration_seconds'' = Inr ds"
    using get_prop_defined[OF assms(5)] by blast
  show ?thesis
  proof (cases "to_string ds")
    case (Inl f)
    with ds have "get_prop data ''duration_seconds'' = Inl f
         \<or> (\<exists>ds. get_prop data ''duration_seconds'' = Inr ds \<and>
               (to_string ds = Inl f
                \<or> (\<exists>d au. to_string ds = Inr d \<and> get_prop data ''agents_used'' = Inr au
                      \<and> call_join au '', '' = Inl f)))"
      by blast
    from attempt_fault[OF assms(1-4) this] show ?thesis by blast
  next
    case (Inr d)
    have "call_join JUndefined '', '' = Inl (ReadOfNullish JUndefined ''join'')" by simp
    with ds Inr assms(5)
    have "get_prop data ''duration_seconds'' = Inl (ReadOfNullish JUndefined ''join'')
         \<or> (\<exists>ds. get_prop data ''duration_seconds'' = Inr ds \<and>
               (to_string ds = Inl (ReadOfNullish JUndefined ''join'')
                \<or> (\<exists>d au. to_string ds = Inr d \<and> get_prop data ''agents_used'' = Inr au
                      \<and> call_join au '', '' = Inl (ReadOfNullish JUndefined ''join''))))"
      by blast
    from attempt_fault[OF assms(1-4) this] show ?thesis by blast
  qed
qed

text \<open>
  C9. Provided the progress callback never throws, the handler raises no exception,
  whatever the topic, the configuration and the answer of the network: every
  invocation returns a value. In particular a success-status response whose body is
  not valid JSON, and one whose decoded body has no \<^verbatim>\<open>agents_used\<close>, both end in the
  \<^verbatim>\<open>catch\<close> branch, whose returned string names the base URL.
\<close>

theorem handler_never_raises:
  assumes "never_throws h"
  shows "(\<exists>v. snd (handler h topic) = Inr v)
       \<and> (fetch h (research_request (baseUrl h) topic (depth h)) = Resolves r \<and> ok r
            \<and> body_json r = Inl e
          \<longrightarrow> snd (handler h topic) = Inr (JString (unreachable_text (baseUrl h) (message e))))
       \<and> (fetch h (research_request (baseUrl h) topic (depth h)) = Resolves r \<and> ok r
            \<and> body_json r = Inr data \<and> get_prop data ''agents_used'' = Inr JUndefined
          \<longrightarrow> (\<exists>msg. snd (handler h topic) = Inr (JString (unreachable_text (baseUrl h) msg))))
       \<and> (\<forall>msg. sublist (baseUrl h) (unreachable_text (baseUrl h) msg))"
proof -
  have "snd (handler h topic) = Inr (JString (unreachable_text (baseUrl h) (message e)))"
    if "fetch h (research_request (baseUrl h) topic (depth h)) = Resolves r" "ok r"
       "body_json r = Inl e"
    using handler_caught[OF assms attempt_malformed[OF assms that]] by simp
  moreover have "\<exists>msg. snd (handler h topic) = Inr (JString (unreachable_text (baseUrl h) msg))"
    if "fetch h (research_request (baseUrl h) topic (depth h)) = Resolves r" "ok r"
       "body_json r = Inr data" "get_prop data ''agents_used'' = Inr JUndefined"
  proof -
    from attempt_without_agents[OF assms that] obtain f where
      "attempt h topic =
        ([Introspect (announcement topic (depth h)),
          Fetch (research_request (baseUrl h) topic (depth h))],
         Inl (JsError ''TypeError'' (type_error_message h f)))" ..
    from handler_caught[OF assms this]
    have "snd (handler h topic)
        = Inr (JString (unreachable_text (baseUrl h) (type_error_message h f)))"
      by simp
    then show ?thesis by blast
  qed
  ultimately show ?thesis
    using handler_returns_or_describes[OF assms, of topic] unreachable_text_names_base
    by blast
qed

theorem handler_never_raises_witness:
  "never_throws (example_host None (Resolves html_response))
   \<and> fetch (example_host None (Resolves html_response))
        (research_request ''http://crewai-service:8000'' ''cats'' ''medium'')
       = Resolves html_response
   \<and> ok html_response
   \<and> body_json html_response = Inl syntax_error
   \<and> snd (handler (example_host None (Resolves html_response)) ''cats'')
       = Inr (JString (unreachable_text ''http://crewai-service:8000''
                         ''Unexpected token < in JSON at position 0''))
   \<and> never_throws (example_host None (Resolves no_agents_response))
   \<and> fetch (example_host None (Resolves no_agents_response))
        (research_request ''http://crewai-service:8000'' ''cats'' ''medium'')
       = Resolves no_agents_response
   \<and> ok no_agents_response
   \<and> body_json no_agents_response = Inr no_agents_data
   \<and> get_prop no_agents_data ''agents_used'' = Inr JUndefined
   \<and> (\<exists>msg. snd (handler (example_host None (Resolves no_agents_response)) ''cats'')
          = Inr (JString (unreachable_text ''http://crewai-service:8000'' msg)))"
proof -
  let ?h = "example_host None (Resolves html_response)"
  let ?n = "example_host None (Resolves no_agents_response)"
  have "snd (handler ?h ''cats'')
       = Inr (JString (unreachable_text ''http://crewai-service:8000''
                         ''Unexpected token < in JSON at position 0''))"
    using handler_never_raises[OF example_host_quiet, of None "Resolves html_response" "''cats''"
        html_response syntax_error]
    by (simp add: example_host_fetch html_response_facts example_host_defaults syntax_error_def)
  moreover have "\<exists>msg. snd (handler ?n ''cats'')
          = Inr (JString (unreachable_text ''http://crewai-service:8000'' msg))"
    using handler_never_raises[OF example_host_quiet, of None "Resolves no_agents_response" "''cats''"
        no_agents_response _ no_agents_data]
    by (simp add: example_host_fetch no_agents_response_facts no_agents_data_reads
        example_host_defaults)
  ultimately show ?thesis
    by (simp add: example_host_quiet example_host_fetch html_response_facts
        no_agents_response_facts no_agents_data_reads)
qed

lemma html_run:
  "handler (example_host None (Resolves html_response)) ''cats'' =
     ([Introspect (announcement ''cats'' ''medium''),
       Fetch (research_request ''http://crewai-service:8000'' ''cats'' ''medium''),
       Introspect (unreachable_notice ''Unexpected token < in JSON at position 0'')],
      Inr (JString (unreachable_text ''http://crewai-service:8000''
                      ''Unexpected token < in JSON at position 0'')))"
proof -
  let ?h = "example_host None (Resolves html_response)"
  have q: "never_throws ?h" by (rule example_host_quiet)
  have f: "fetch ?h (research_request (baseUrl ?h) ''cats'' (depth ?h)) = Resolves html_response"
    by (rule example_host_fetch)
  from handler_caught[OF q attempt_malformed[OF q f html_response_facts]]
  show ?thesis by (simp add: example_host_defaults syntax_error_def)
qed

text \<open>
  C1, as stated, says that a parse failure on a success-status response leaves the
  handler as an exception. It does not: the \<^verbatim>\<open>try\<close> block encloses
  \<^verbatim>\<open>response.json()\<close>. With status 200 and an HTML body the handler returns the
  description string of the \<^verbatim>\<open>catch\<close> branch.
\<close>

theorem parse_failure_is_caught_counterexample:
  "never_throws (example_host None (Resolves html_response))
   \<and> fetch (example_host None (Resolves html_response))
        (research_request ''http://crewai-service:8000'' ''cats'' ''medium'')
       = Resolves html_response
   \<and> ok html_response
   \<and> body_json html_response = Inl syntax_error
   \<and> snd (handler (example_host None (Resolves html_response)) ''cats'') \<noteq> Inl syntax_error
   \<and> snd (handler (example_host None (Resolves html_response)) ''cats'')
       = Inr (JString (''Error contacting CrewAI service at http://crewai-service:8000: ''
            @ ''Unexpected token < in JSON at position 0''
            @ ''. Make sure the crewai-service container is running and on the same Docker network.''))"
  by (simp add: html_run example_host_quiet example_host_fetch html_response_facts
      unreachable_text_def remediation_hint_def)

text \<open>
  C1, amended. With a progress callback that does not throw, every failure is
  converted to a returned description string and none leaves the handler as an
  exception: a rejection of \<^verbatim>\<open>fetch\<close> gives the text naming the base URL and the
  error message; a non-success status gives the text with the status and the body (or,
  when the body cannot be read, the text naming the base URL); and a success status
  whose body is not valid JSON gives, like a network failure, the text naming the base
  URL and the parse error's message.
\<close>

theorem failures_are_returned_as_text:
  assumes "never_throws h"
  shows "(fetch h (research_request (baseUrl h) topic (depth h)) = Rejects e
          \<longrightarrow> snd (handler h topic) = Inr (JString (unreachable_text (baseUrl h) (message e))))
       \<and> (fetch h (research_request (baseUrl h) topic (depth h)) = Resolves r \<and> \<not> ok r
            \<and> body_text r = Inr errBody
          \<longrightarrow> snd (handler h topic) = Inr (JString (remote_failure_text (status r) errBody)))
       \<and> (fetch h (research_request (baseUrl h) topic (depth h)) = Resolves r \<and> \<not> ok r
            \<and> body_text r = Inl e
          \<longrightarrow> snd (handler h topic) = Inr (JString (unreachable_text (baseUrl h) (message e))))
       \<and> (fetch h (research_request (baseUrl h) topic (depth h)) = Resolves r \<and> ok r
            \<and> body_json r = Inl e
          \<longrightarrow> snd (handler h topic) = Inr (JString (unreachable_text (baseUrl h) (message e))))"
proof -
  have "snd (handler h topic) = Inr (JString (unreachable_text (baseUrl h) (message e)))"
    if "fetch h (research_request (baseUrl h) topic (depth h)) = Rejects e"
    using handler_caught[OF assms attempt_rejects[OF assms that]] by simp
  moreover
  have "snd (handler h topic) = Inr (JString (remote_failure_text (status r) errBody))"
    if "fetch h (research_request (baseUrl h) topic (depth h)) = Resolves r" "\<not> ok r"
       "body_text r = Inr errBody"
    using handler_passed[OF attempt_remote[OF assms that]] by simp
  moreover
  have "snd (handler h topic) = Inr (JString (unreachable_text (baseUrl h) (message e)))"
    if "fetch h (research_request (baseUrl h) topic (depth h)) = Resolves r" "\<not> ok r"
       "body_text r = Inl e"
    using handler_caught[OF assms attempt_unreadable[OF assms that]] by simp
  moreover
  have "snd (handler h topic) = Inr (JString (unreachable_text (baseUrl h) (message e)))"
    if "fetch h (research_request (baseUrl h) topic (depth h)) = Resolves r" "ok r"
       "body_json r = Inl e"
    using handler_caught[OF assms attempt_malformed[OF assms that]] by simp
  ultimately show ?thesis by blast
qed

theorem failures_are_returned_as_text_witness:
  "never_throws (example_host None (Rejects timeout_error))
   \<and> fetch (example_host None (Rejects timeout_error))
        (research_request ''http://crewai-service:8000'' ''cats'' ''medium'')
       = Rejects timeout_error
   \<and> snd (handler (example_host None (Rejects timeout_error)) ''cats'')
       = Inr (JString (unreachable_text ''http://crewai-service:8000''
                         ''The operation was aborted due to timeout''))
   \<and> never_throws (example_host None (Resolves boom_response))
   \<and> fetch (example_host None (Resolves boom_response))
        (research_request ''http://crewai-service:8000'' ''cats'' ''medium'')
       = Resolves boom_response
   \<and> \<not> ok boom_response
   \<and> body_text boom_response = Inr ''boom''
   \<and> snd (handler (example_host None (Resolves boom_response)) ''cats'')
       = Inr (JString (remote_failure_text 500 ''boom''))
   \<and> never_throws (example_host None (Resolves html_response))
   \<and> fetch (example_host None (Resolves html_response))
        (research_request ''http://crewai-service:8000'' ''cats'' ''medium'')
       = Resolves html_response
   \<and> ok html_response
   \<and> body_json html_response = Inl syntax_error
   \<and> snd (handler (example_host None (Resolves html_response)) ''cats'')
       = Inr (JString (unreachable_text ''http://crewai-service:8000''
                         ''Unexpected token < in JSON at position 0''))"
proof -
  have "snd (handler (example_host None (Rejects timeout_error)) ''cats'')
       = Inr (JString (unreachable_text ''http://crewai-service:8000''
                         ''The operation was aborted due to timeout''))"
    using failures_are_returned_as_text[OF example_host_quiet, of None "Rejects timeout_error"
        "''cats''" timeout_error]
    by (simp add: example_host_fetch example_host_defaults timeout_error_def)
  moreover have "snd (handler (example_host None (Resolves boom_response)) ''cats'')
       = Inr (JString (remote_failure_text 500 ''boom''))"
    using failures_are_returned_as_text[OF example_host_quiet, of None "Resolves boom_response"
        "''cats''" _ boom_response "''boom''"]
    by (simp add: example_host_fetch boom_response_facts)
  moreover have "snd (handler (example_host None (Resolves html_response)) ''cats'')
       = Inr (JString (unreachable_text ''http://crewai-service:8000''
                         ''Unexpected token < in JSON at position 0''))"
    using failures_are_returned_as_text[OF example_host_quiet, of None "Resolves html_response"
        "''cats''" syntax_error html_response]
    by (simp add: example_host_fetch html_response_facts example_host_defaults syntax_error_def)
  ultimately show ?thesis
    by (simp add: example_host_quiet example_host_fetch boom_response_facts html_response_facts)
qed

lemma no_agents_run:
  "handler (example_host None (Resolves no_agents_response)) ''cats'' =
     ([Introspect (announcement ''cats'' ''medium''),
       Fetch (research_request ''http://crewai-service:8000'' ''cats'' ''medium''),
       Introspect (unreachable_notice (v8_message (ReadOfNullish JUndefined ''join'')))],
      Inr (JString (unreachable_text ''http://crewai-service:8000''
                      (v8_message (ReadOfNullish JUndefined ''join'')))))"
proof -
  let ?h = "example_host None (Resolves no_agents_response)"
  have q: "never_throws ?h" by (rule example_host_quiet)
  have f: "fetch ?h (research_request (baseUrl ?h) ''cats'' (depth ?h))
      = Resolves no_agents_response"
    by (rule example_host_fetch)
  have "get_prop no_agents_data ''duration_seconds'' = Inl (ReadOfNullish JUndefined ''join'')
         \<or> (\<exists>ds. get_prop no_agents_data ''duration_seconds'' = Inr ds \<and>
               (to_string ds = Inl (ReadOfNullish JUndefined ''join'')
                \<or> (\<exists>d au. to_string ds = Inr d \<and> get_prop no_agents_data ''agents_used'' = Inr au
                      \<and> call_join au '', '' = Inl (ReadOfNullish JUndefined ''join''))))"
    by (simp add: no_agents_data_reads)
  from handler_caught[OF q attempt_fault[OF q f no_agents_response_facts this]]
  show ?thesis by (simp add: example_host_defaults example_host_wording)
qed

text \<open>
  C7, as stated, says that a success body without \<^verbatim>\<open>agents_used\<close> is treated as one
  with no agents and that \<^verbatim>\<open>result\<close> is still returned. It is not: \<^verbatim>\<open>join\<close> is read
  from \<^verbatim>\<open>undefined\<close>, the \<^verbatim>\<open>TypeError\<close> is caught, and the handler returns the
  description string of the \<^verbatim>\<open>catch\<close> branch instead of \<^verbatim>\<open>ok\<close>.
\<close>

theorem absent_agents_used_counterexample:
  "never_throws (example_host None (Resolves no_agents_response))
   \<and> fetch (example_host None (Resolves no_agents_response))
        (research_request ''http://crewai-service:8000'' ''cats'' ''medium'')
       = Resolves no_agents_response
   \<and> ok no_agents_response
   \<and> body_json no_agents_response
       = Inr (JObject [(''result'', JString ''ok''), (''duration_seconds'', JNumber ''12'')])
   \<and> snd (handler (example_host None (Resolves no_agents_response)) ''cats'')
       \<noteq> Inr (JString ''ok'')
   \<and> snd (handler (example_host None (Resolves no_agents_response)) ''cats'')
       = Inr (JString (''Error contacting CrewAI service at http://crewai-service:8000: ''
            @ ''Cannot read properties of undefined (reading '' @ [CHR 0x27] @ ''join''
            @ [CHR 0x27] @ '')''
            @ ''. Make sure the crewai-service container is running and on the same Docker network.''))"
  by (simp add: no_agents_run example_host_quiet example_host_fetch no_agents_response_facts
      no_agents_data_def unreachable_text_def remediation_hint_def)

text \<open>
  C7, amended. For a success-status response whose decoded body has a
  \<^verbatim>\<open>duration_seconds\<close> that converts to a string: when \<^verbatim>\<open>agents_used\<close> is the empty
  array, the handler reports completion with an empty list of agents and returns the
  body's \<^verbatim>\<open>result\<close>; when \<^verbatim>\<open>agents_used\<close> is absent, the handler does not return
  \<^verbatim>\<open>result\<close> but the \<^verbatim>\<open>catch\<close> branch's string, which names the base URL and
  carries the engine's message for reading \<^verbatim>\<open>join\<close> of \<^verbatim>\<open>undefined\<close>.
\<close>

theorem agents_used_empty_or_absent:
  assumes "never_throws h"
    and "fetch h (research_request (baseUrl h) topic (depth h)) = Resolves r"
    and "ok r" and "body_json r = Inr data"
    and "get_prop data ''duration_seconds'' = Inr ds" and "to_string ds = Inr d"
    and "get_prop data ''result'' = Inr res"
  shows "(get_prop data ''agents_used'' = Inr (JArray [])
          \<longrightarrow> handler h topic =
                ([Introspect (announcement topic (depth h)),
                  Fetch (research_request (baseUrl h) topic (depth h)),
                  Introspect (completion_notice d [])], Inr res))
       \<and> (get_prop data ''agents_used'' = Inr JUndefined
          \<longrightarrow> handler h topic =
                ([Introspect (announcement topic (depth h)),
                  Fetch (research_request (baseUrl h) topic (depth h)),
                  Introspect (unreachable_notice
                    (type_error_message h (ReadOfNullish JUndefined ''join'')))],
                 Inr (JString (unreachable_text (baseUrl h)
                    (type_error_message h (ReadOfNullish JUndefined ''join''))))))"
proof -
  have "handler h topic =
                ([Introspect (announcement topic (depth h)),
                  Fetch (research_request (baseUrl h) topic (depth h)),
                  Introspect (completion_notice d [])], Inr res)"
    if au: "get_prop data ''agents_used'' = Inr (JArray [])"
  proof -
    have "call_join (JArray []) '', '' = Inr []" by simp
    from handler_passed[OF attempt_complete[OF assms(1-6) au this assms(7)]]
    show ?thesis .
  qed
  moreover have "handler h topic =
                ([Introspect (announcement topic (depth h)),
                  Fetch (research_request (baseUrl h) topic (depth h)),
                  Introspect (unreachable_notice
                    (type_error_message h (ReadOfNullish JUndefined ''join'')))],
                 Inr (JString (unreachable_text (baseUrl h)
                    (type_error_message h (ReadOfNullish JUndefined ''join'')))))"
    if au: "get_prop data ''agents_used'' = Inr JUndefined"
  proof -
    have "call_join JUndefined '', '' = Inl (ReadOfNullish JUndefined ''join'')" by simp
    with assms(5,6) au
    have "get_prop data ''duration_seconds'' = Inl (ReadOfNullish JUndefined ''join'')
         \<or> (\<exists>ds. get_prop data ''duration_seconds'' = Inr ds \<and>
               (to_string ds = Inl (ReadOfNullish JUndefined ''join'')
                \<or> (\<exists>d au. to_string ds = Inr d \<and> get_prop data ''agents_used'' = Inr au
                      \<and> call_join au '', '' = Inl (ReadOfNullish JUndefined ''join''))))"
      by blast
    from handler_caught[OF assms(1) attempt_fault[OF assms(1-4) this]]
    show ?thesis by simp
  qed
  ultimately show ?thesis by blast
qed

theorem agents_used_empty_or_absent_witness:
  "never_throws (example_host None (Resolves empty_agents_response))
   \<and> fetch (example_host None (Resolves empty_agents_response))
        (research_request ''http://crewai-service:8000'' ''cats'' ''medium'')
       = Resolves empty_agents_response
   \<and> ok empty_agents_response
   \<and> body_json empty_agents_response = Inr empty_agents_data
   \<and> get_prop empty_agents_data ''duration_seconds'' = Inr (JNumber ''12'')
   \<and> to_string (JNumber ''12'') = Inr ''12''
   \<and> get_prop empty_agents_data ''result'' = Inr (JString ''ok'')
   \<and> get_prop empty_agents_data ''agents_used'' = Inr (JArray [])
   \<and> handler (example_host None (Resolves empty_agents_response)) ''cats''
       = ([Introspect (announcement ''cats'' ''medium''),
           Fetch (research_request ''http://crewai-service:8000'' ''cats'' ''medium''),
           Introspect (completion_notice ''12'' [])], Inr (JString ''ok''))
   \<and> never_throws (example_host None (Resolves no_agents_response))
   \<and> fetch (example_host None (Resolves no_agents_response))
        (research_request ''http://crewai-service:8000'' ''cats'' ''medium'')
       = Resolves no_agents_response
   \<and> ok no_agents_response
   \<and> body_json no_agents_response = Inr no_agents_data
   \<and> get_prop no_agents_data ''duration_seconds'' = Inr (JNumber ''12'')
   \<and> get_prop no_agents_data ''result'' = Inr (JString ''ok'')
   \<and> get_prop no_agents_data ''agents_used'' = Inr JUndefined
   \<and> snd (handler (example_host None (Resolves no_agents_response)) ''cats'')
       = Inr (JString (unreachable_text ''http://crewai-service:8000''
                (v8_message (ReadOfNullish JUndefined ''join''))))"
proof -
  let ?e = "example_host None (Resolves empty_agents_response)"
  let ?n = "example_host None (Resolves no_agents_response)"
  have t: "to_string (JNumber ''12'') = Inr ''12''" by simp
  have fe: "fetch ?e (research_request (baseUrl ?e) ''cats'' (depth ?e))
      = Resolves empty_agents_response"
    by (rule example_host_fetch)
  have fn: "fetch ?n (research_request (baseUrl ?n) ''cats'' (depth ?n))
      = Resolves no_agents_response"
    by (rule example_host_fetch)
  have "handler ?e ''cats''
       = ([Introspect (announcement ''cats'' ''medium''),
           Fetch (research_request ''http://crewai-service:8000'' ''cats'' ''medium''),
           Introspect (completion_notice ''12'' [])], Inr (JString ''ok''))"
    using agents_used_empty_or_absent[OF example_host_quiet fe empty_agents_response_facts
        empty_agents_data_reads(1) t empty_agents_data_reads(3)]
    by (simp add: empty_agents_data_reads example_host_defaults)
  moreover have "snd (handler ?n ''cats'')
       = Inr (JString (unreachable_text ''http://crewai-service:8000''
                (v8_message (ReadOfNullish JUndefined ''join''))))"
    using agents_used_empty_or_absent[OF example_host_quiet fn no_agents_response_facts
        no_agents_data_reads(1) t no_agents_data_reads(3)]
    by (simp add: no_agents_data_reads example_host_defaults example_host_wording)
  ultimately show ?thesis
    by (simp add: example_host_quiet example_host_fetch empty_agents_response_facts
        no_agents_response_facts empty_agents_data_reads no_agents_data_reads)
qed

end
